theory Spec2Isabelle
  imports Complex_Main "HOL-Library.AList"
begin

section \<open>Data model\<close>

text \<open>
  The types of \<^verbatim>\<open>@/types\<close> and the \<^verbatim>\<open>AppState\<close> interface of \<^verbatim>\<open>App.tsx\<close>.
  A browser \<^verbatim>\<open>File\<close> is reduced to the three attributes the code reads. Mask
  identifiers are the integers \<^verbatim>\<open>Date.now()\<close> yields; coordinates are numbers that
  the code only carries around. Field names that clash with constants of HOL carry a
  prefix (\<open>mask_id\<close> for \<^verbatim>\<open>id\<close>, \<open>file_size\<close> for \<^verbatim>\<open>size\<close>), and the response
  records, which share \<^verbatim>\<open>success\<close> and \<^verbatim>\<open>message\<close>, carry a suffix.
\<close>

record File =
  file_name :: string
  file_type :: string
  file_size :: nat

record Mask =
  mask_id :: int
  coordinates :: "real list list"
  color :: "string option"

record UploadResponse =
  success_up :: bool
  filename :: "string option"
  message_up :: "string option"

record GenerateMasksResponse =
  masks_gm :: "Mask list"
  success_gm :: bool
  message_gm :: "string option"

record ApplyColorResponse =
  success_ac :: bool
  colored_image_url :: "string option"
  message_ac :: "string option"

datatype Step = Upload | Select | Color | Download

record AppState =
  uploadedImage :: "File option"
  imagePreview :: "string option"
  masks :: "Mask list"
  selectedMasks :: "int list"
  appliedColors :: "(int \<times> string) list"
  isProcessing :: bool
  progress :: nat
  error :: "string option"
  currentStep :: Step

text \<open>
  \<^verbatim>\<open>appliedColors\<close> is a JavaScript \<^verbatim>\<open>Map\<close>: an association list in insertion
  order, written only through \<open>AList.update\<close>, which replaces the value of a key that
  is present and appends a new key at the end, as \<^verbatim>\<open>Map.set\<close> does.
\<close>


text \<open>
  What a handler does besides updating the state: the notifications it raises
  (\<^verbatim>\<open>toast\<close>: title, description, variant) and the remote calls it issues, in the
  order of the source. \<^verbatim>\<open>console.error\<close> output is left out.
\<close>

datatype Variant = Default | Destructive

datatype Effect =
  Toast string string Variant
| UploadCall File
| GenerateMasksCall File "real list list"

fun isRemoteCall :: "Effect \<Rightarrow> bool" where
  "isRemoteCall (Toast t d v) = False"
| "isRemoteCall (UploadCall f) = True"
| "isRemoteCall (GenerateMasksCall f ps) = True"

fun isErrorNotice :: "Effect \<Rightarrow> bool" where
  "isErrorNotice (Toast t d v) = (v = Destructive)"
| "isErrorNotice (UploadCall f) = False"
| "isErrorNotice (GenerateMasksCall f ps) = False"

section \<open>API client (services/api.ts)\<close>

text \<open>
  What \<^verbatim>\<open>fetch\<close> followed by reading the body can end in: the promise rejects (a
  network error, with the message of the error thrown), or a response arrives with a
  status and a body that either fails to decode (\<^verbatim>\<open>response.json()\<close> rejects) or
  decodes to a value. \<^verbatim>\<open>response.ok\<close> is true for the statuses 200 to 299.
\<close>

datatype 'a Body = BodyError string | Decoded 'a

datatype 'a FetchResult = NetworkError string | HttpResponse nat "'a Body"

definition ok :: "nat \<Rightarrow> bool" where
  "ok status = (200 \<le> status \<and> status \<le> 299)"

text \<open>The decimal digits of a status code, as a template literal prints it.\<close>

fun string_of_nat :: "nat \<Rightarrow> string" where
  "string_of_nat n =
     (if n < 10 then [char_of (48 + n)]
      else string_of_nat (n div 10) @ [char_of (48 + n mod 10)])"

text \<open>
  Every operation returns \<open>Inl\<close> the message of the error it throws, or \<open>Inr\<close> the
  value it resolves to.
\<close>

definition readBody :: "'a Body \<Rightarrow> string + 'a" where
  "readBody b = (case b of BodyError m \<Rightarrow> Inl m | Decoded v \<Rightarrow> Inr v)"

definition makeRequest :: "'a FetchResult \<Rightarrow> string + 'a" where
  "makeRequest r =
     (case r of
        NetworkError m \<Rightarrow> Inl m
      | HttpResponse status body \<Rightarrow>
          if \<not> ok status then Inl (''HTTP error! status: '' @ string_of_nat status)
          else readBody body)"

definition uploadImage :: "UploadResponse FetchResult \<Rightarrow> string + UploadResponse" where
  "uploadImage r =
     (case r of
        NetworkError m \<Rightarrow> Inl m
      | HttpResponse status body \<Rightarrow>
          if \<not> ok status then Inl (''Upload failed: '' @ string_of_nat status)
          else readBody body)"

definition generateMasks ::
  "GenerateMasksResponse FetchResult \<Rightarrow> string + GenerateMasksResponse" where
  "generateMasks r =
     (case r of
        NetworkError m \<Rightarrow> Inl m
      | HttpResponse status body \<Rightarrow>
          if \<not> ok status then Inl (''Mask generation failed: '' @ string_of_nat status)
          else readBody body)"

definition applyColor :: "ApplyColorResponse FetchResult \<Rightarrow> string + ApplyColorResponse" where
  "applyColor r = makeRequest r"

definition downloadResult :: "'blob FetchResult \<Rightarrow> string + 'blob" where
  "downloadResult r =
     (case r of
        NetworkError m \<Rightarrow> Inl m
      | HttpResponse status body \<Rightarrow>
          if \<not> ok status then Inl (''Download failed: '' @ string_of_nat status)
          else readBody body)"

section \<open>Workflow controller (App.tsx)\<close>

definition initialState :: AppState where
  "initialState =
     \<lparr>uploadedImage = None, imagePreview = None, masks = [], selectedMasks = [],
      appliedColors = [], isProcessing = False, progress = 0, error = None,
      currentStep = Upload\<rparr>"

text \<open>\<^verbatim>\<open>a || b\<close> on an optional string: \<open>b\<close> when \<open>a\<close> is undefined or empty.\<close>

definition orElse :: "string option \<Rightarrow> string \<Rightarrow> string" where
  "orElse a b = (case a of None \<Rightarrow> b | Some t \<Rightarrow> if t = [] then b else t)"

subsection \<open>The state updates, one per \<^verbatim>\<open>setState\<close> call\<close>

definition uploadStarted :: "File \<Rightarrow> string \<Rightarrow> AppState \<Rightarrow> AppState" where
  "uploadStarted file preview prev =
     prev\<lparr>uploadedImage := Some file, imagePreview := Some preview, isProcessing := True,
          progress := 0, error := None, currentStep := Select\<rparr>"

definition setProgress :: "nat \<Rightarrow> AppState \<Rightarrow> AppState" where
  "setProgress i prev = prev\<lparr>progress := i\<rparr>"

definition uploadSucceeded :: "AppState \<Rightarrow> AppState" where
  "uploadSucceeded prev = prev\<lparr>isProcessing := False, progress := 100\<rparr>"

definition uploadFailed :: "string \<Rightarrow> AppState \<Rightarrow> AppState" where
  "uploadFailed msg prev = prev\<lparr>isProcessing := False, error := Some msg\<rparr>"

definition maskRequestStarted :: "AppState \<Rightarrow> AppState" where
  "maskRequestStarted prev = prev\<lparr>isProcessing := True, progress := 0, error := None\<rparr>"

definition maskAppended :: "Mask \<Rightarrow> AppState \<Rightarrow> AppState" where
  "maskAppended newMask prev =
     prev\<lparr>masks := masks prev @ [newMask], isProcessing := False, progress := 100,
          currentStep := Color\<rparr>"

definition maskRequestFailed :: "string \<Rightarrow> AppState \<Rightarrow> AppState" where
  "maskRequestFailed msg prev = prev\<lparr>isProcessing := False, error := Some msg\<rparr>"

definition colorsApplied :: "int list \<Rightarrow> string \<Rightarrow> AppState \<Rightarrow> AppState" where
  "colorsApplied selected c prev =
     prev\<lparr>appliedColors := foldl (\<lambda>m maskId. AList.update maskId c m) (appliedColors prev) selected,
          currentStep := Download\<rparr>"

text \<open>
  The two progress loops: \<^verbatim>\<open>for (let i = 0; i <= 100; i += 10)\<close> of the upload and
  \<^verbatim>\<open>for (let i = 0; i <= 100; i += 20)\<close> of the mask request, each iteration setting
  the progress and then waiting on a timer.
\<close>

function uploadProgress :: "nat \<Rightarrow> AppState \<Rightarrow> AppState" where
  "uploadProgress i s = (if i \<le> 100 then uploadProgress (i + 10) (setProgress i s) else s)"
  by pat_completeness auto
termination
  by (relation "measure (\<lambda>(i, s). 101 - i)") auto

function maskProgress :: "nat \<Rightarrow> AppState \<Rightarrow> AppState" where
  "maskProgress i s = (if i \<le> 100 then maskProgress (i + 20) (setProgress i s) else s)"
  by pat_completeness auto
termination
  by (relation "measure (\<lambda>(i, s). 101 - i)") auto

subsection \<open>The handlers\<close>

text \<open>
  A handler takes the state and what the outside world answers (the result of the
  fetch, the clock) and returns the state after it has run to completion, with its
  effects. The handlers read \<^verbatim>\<open>state\<close>, the state of the latest render; the model
  takes it to be the state the handler is applied to.
\<close>

text \<open>
  The end of each \<^verbatim>\<open>try\<close> block: the call of the API client and the test of the
  \<^verbatim>\<open>success\<close> flag, \<open>Inl\<close> the message of the error that reaches \<^verbatim>\<open>catch\<close>.
\<close>

definition uploadAttempt :: "UploadResponse FetchResult \<Rightarrow> string + UploadResponse" where
  "uploadAttempt r =
     (case uploadImage r of
        Inl m \<Rightarrow> Inl m
      | Inr uploadResponse \<Rightarrow>
          if success_up uploadResponse then Inr uploadResponse
          else Inl (orElse (message_up uploadResponse) ''Upload failed''))"

definition maskAttempt ::
  "GenerateMasksResponse FetchResult \<Rightarrow> string + GenerateMasksResponse" where
  "maskAttempt r =
     (case generateMasks r of
        Inl m \<Rightarrow> Inl m
      | Inr response \<Rightarrow>
          if success_gm response then Inr response
          else Inl (orElse (message_gm response) ''Mask generation failed''))"

definition handleImageUpload ::
  "File \<Rightarrow> string \<Rightarrow> UploadResponse FetchResult \<Rightarrow> AppState \<Rightarrow> AppState \<times> Effect list" where
  "handleImageUpload file preview r s =
     (let s1 = uploadProgress 0 (uploadStarted file preview s) in
      case uploadAttempt r of
        Inr uploadResponse \<Rightarrow>
          (uploadSucceeded s1,
           [UploadCall file,
            Toast ''Image uploaded successfully'' ''Your image is ready for processing.'' Default])
      | Inl m \<Rightarrow>
          (uploadFailed m s1,
           [UploadCall file, Toast ''Upload failed'' m Destructive]))"

text \<open>
  \<^verbatim>\<open>handleCanvasClick\<close> after its first state update: the progress loop from the
  counter \<open>i\<close> on, the remote call, and the update of its outcome. The handler waits
  after every iteration and on the remote call; \<open>maskRequestFrom\<close> is how it goes on
  from there.
\<close>

definition maskRequestFrom ::
  "nat \<Rightarrow> File \<Rightarrow> real \<Rightarrow> real \<Rightarrow> int \<Rightarrow> GenerateMasksResponse FetchResult \<Rightarrow> AppState
     \<Rightarrow> AppState \<times> Effect list" where
  "maskRequestFrom i file x y now r s =
     (let s1 = maskProgress i s in
      case maskAttempt r of
        Inr response \<Rightarrow>
          (maskAppended
             \<lparr>mask_id = now,
              coordinates = (case masks_gm response of [] \<Rightarrow> [] | m # ms \<Rightarrow> coordinates m),
              color = None\<rparr> s1,
           [GenerateMasksCall file [[x, y]],
            Toast ''Mask generated successfully'' ''Click on the mask to apply colors.''
              Default])
      | Inl m \<Rightarrow>
          (maskRequestFailed m s1,
           [GenerateMasksCall file [[x, y]],
            Toast ''Mask generation failed'' m Destructive]))"

definition handleCanvasClick ::
  "real \<Rightarrow> real \<Rightarrow> int \<Rightarrow> GenerateMasksResponse FetchResult \<Rightarrow> AppState
     \<Rightarrow> AppState \<times> Effect list" where
  "handleCanvasClick x y now r s =
     (case uploadedImage s of
        None \<Rightarrow> (s, [])
      | Some file \<Rightarrow>
          if isProcessing s then (s, [])
          else maskRequestFrom 0 file x y now r (maskRequestStarted s))"

text \<open>
  The guard of \<^verbatim>\<open>handleCanvasClick\<close> reads \<^verbatim>\<open>state\<close>, the state of the render
  the handler was created in, while the updates act on \<^verbatim>\<open>prev\<close>, the state at the
  moment they are applied. \<open>handleCanvasClickFrom\<close> keeps the two apart: \<open>state\<close> is
  the render, \<open>prev\<close> the current state. \<open>handleCanvasClick\<close> is the handler of the
  latest render, where the two are the same.
\<close>

definition handleCanvasClickFrom ::
  "AppState \<Rightarrow> real \<Rightarrow> real \<Rightarrow> int \<Rightarrow> GenerateMasksResponse FetchResult \<Rightarrow> AppState
     \<Rightarrow> AppState \<times> Effect list" where
  "handleCanvasClickFrom state x y now r prev =
     (case uploadedImage state of
        None \<Rightarrow> (prev, [])
      | Some file \<Rightarrow>
          if isProcessing state then (prev, [])
          else maskRequestFrom 0 file x y now r (maskRequestStarted prev))"

definition handleColorSelect :: "string \<Rightarrow> AppState \<Rightarrow> AppState \<times> Effect list" where
  "handleColorSelect c s =
     (if length (selectedMasks s) = 0
      then (s, [Toast ''No mask selected'' ''Click on a mask to select it for coloring.''
                  Destructive])
      else (colorsApplied (selectedMasks s) c s,
            [Toast ''Color applied'' (''Applied '' @ c @ '' to selected mask(s).'') Default]))"

definition handleMaskSelect :: "int \<Rightarrow> AppState \<Rightarrow> AppState" where
  "handleMaskSelect maskId prev =
     prev\<lparr>selectedMasks :=
            (if maskId \<in> set (selectedMasks prev)
             then filter (\<lambda>i. i \<noteq> maskId) (selectedMasks prev)
             else selectedMasks prev @ [maskId])\<rparr>"

definition handleDownload :: "AppState \<Rightarrow> AppState \<times> Effect list" where
  "handleDownload s =
     (if length (appliedColors s) = 0
      then (s, [Toast ''No colors applied'' ''Apply colors to masks before downloading.''
                  Destructive])
      else (s, [Toast ''Download started'' ''Preparing your colored image...'' Default,
                Toast ''Download complete''
                  ''Your colored building segmentation has been downloaded.'' Default]))"

section \<open>Upload component (components/ImageUpload.tsx)\<close>

record UploadView =
  preview :: "string option"
  fileName :: "string option"

definition validTypes :: "string list" where
  "validTypes = [''image/jpeg'', ''image/jpg'', ''image/png'', ''image/webp'']"

definition maxSize :: nat where
  "maxSize = 10 * 1024 * 1024"

definition validateFile :: "File \<Rightarrow> bool \<times> Effect list" where
  "validateFile file =
     (if file_type file \<notin> set validTypes
      then (False, [Toast ''Invalid file type'' ''Please upload a JPEG, PNG, or WebP image.''
                      Destructive])
      else if maxSize < file_size file
      then (False, [Toast ''File too large'' ''Please upload an image smaller than 10MB.''
                      Destructive])
      else (True, []))"

text \<open>
  \<^verbatim>\<open>handleFile\<close> acts on the component's own state and, through the callback
  \<^verbatim>\<open>onImageUpload\<close>, on the controller's. \<open>result\<close> is what the \<^verbatim>\<open>FileReader\<close>
  delivers: \<open>None\<close> when the read fails and \<^verbatim>\<open>onload\<close> never runs. The
  callback is asynchronous and \<^verbatim>\<open>onload\<close> does not wait for it: the controller's
  handler makes its first updates, \<^verbatim>\<open>onload\<close> raises the component's own notice,
  and the remote call and the notice of the controller's handler come after it.
\<close>

definition handleFile ::
  "(File \<Rightarrow> string \<Rightarrow> 'app \<Rightarrow> 'app \<times> Effect list) \<Rightarrow> File \<Rightarrow> string option
     \<Rightarrow> UploadView \<times> 'app \<Rightarrow> (UploadView \<times> 'app) \<times> Effect list" where
  "handleFile onImageUpload file result st =
     (case validateFile file of
        (False, notices) \<Rightarrow> (st, notices)
      | (True, notices) \<Rightarrow>
          (case result of
             None \<Rightarrow> (st, notices)
           | Some url \<Rightarrow>
               (case onImageUpload file url (snd st) of
                  (app, effects) \<Rightarrow>
                    ((fst st\<lparr>preview := Some url, fileName := Some (file_name file)\<rparr>, app),
                     notices @
                     [Toast ''Image uploaded successfully''
                        (file_name file @ '' has been uploaded and is ready for processing.'')
                        Default] @
                     effects))))"

section \<open>Palette component (ColorPalette.tsx)\<close>






section \<open>Reachable states\<close>

text \<open>
  The states the application can be in: the initial state, closed under every state
  update of the handlers. The updates are taken one at a time, so the states between two
  updates of a handler that is waiting (on a timer, on the remote service) are
  reachable too, and another handler may run from them. A mask is toggled only through
  the overlay of a mask of the list (\<^verbatim>\<open>onClick={() => handleMaskSelect(mask.id)}\<close>).
\<close>

inductive reachable :: "AppState \<Rightarrow> bool" where
  initial: "reachable initialState"
| upload_started: "reachable s \<Longrightarrow> reachable (uploadStarted file url s)"
| progress_set: "reachable s \<Longrightarrow> i \<le> 100 \<Longrightarrow> reachable (setProgress i s)"
| upload_succeeded: "reachable s \<Longrightarrow> reachable (uploadSucceeded s)"
| upload_failed: "reachable s \<Longrightarrow> reachable (uploadFailed msg s)"
| mask_request_started: "reachable s \<Longrightarrow> reachable (maskRequestStarted s)"
| mask_appended: "reachable s \<Longrightarrow> reachable (maskAppended m s)"
| mask_request_failed: "reachable s \<Longrightarrow> reachable (maskRequestFailed msg s)"
| colors_applied: "reachable s \<Longrightarrow> reachable (colorsApplied selected c s)"
| mask_toggled: "reachable s \<Longrightarrow> m \<in> set (masks s) \<Longrightarrow> reachable (handleMaskSelect (mask_id m) s)"

text \<open>Every selected identifier is the identifier of a mask of the list.\<close>

definition selectionValid :: "AppState \<Rightarrow> bool" where
  "selectionValid s = (set (selectedMasks s) \<subseteq> set (map mask_id (masks s)))"

section \<open>A session\<close>

text \<open>
  The scenario of the specification: a 2 MB JPEG is uploaded, a click at (100, 150)
  yields a mask, the mask is selected and coloured.
\<close>

definition photo :: File where
  "photo = \<lparr>file_name = ''photo.jpg'', file_type = ''image/jpeg'', file_size = 2097152\<rparr>"

definition uploadOk :: "UploadResponse FetchResult" where
  "uploadOk =
     HttpResponse 200
       (Decoded \<lparr>success_up = True, filename = Some ''photo.jpg'', message_up = None\<rparr>)"

definition maskFound :: "GenerateMasksResponse FetchResult" where
  "maskFound =
     HttpResponse 200
       (Decoded \<lparr>masks_gm = [\<lparr>mask_id = 0, coordinates = [[90, 140], [130, 140], [130, 180]],
                               color = None\<rparr>],
                 success_gm = True, message_gm = None\<rparr>)"

definition noMaskFound :: "GenerateMasksResponse FetchResult" where
  "noMaskFound =
     HttpResponse 200 (Decoded \<lparr>masks_gm = [], success_gm = True, message_gm = None\<rparr>)"

definition afterUpload :: AppState where
  "afterUpload = fst (handleImageUpload photo ''data:image/jpeg;base64,AAAA'' uploadOk initialState)"

definition afterMask :: AppState where
  "afterMask = fst (handleCanvasClick 100 150 1700000000000 maskFound afterUpload)"

definition afterSelect :: AppState where
  "afterSelect = handleMaskSelect 1700000000000 afterMask"

definition afterColor :: AppState where
  "afterColor = fst (handleColorSelect ''#FF6B6B'' afterSelect)"

text \<open>
  A second session, in which an upload overtakes a mask request. After the upload of
  the photo the preview is removed in the upload component, which shows its drop zone
  again; the controller keeps the photo. A click at (100, 150) is accepted: the handler
  makes its first update, runs its progress loop and waits for the remote service. A
  second file is dropped meanwhile (the drop zone does not test the processing flag) and
  its upload ends first. Then a click at (10, 20) comes, from the latest render; its
  answer arrives, and at last the answer to the first click.
\<close>

definition facade :: File where
  "facade = \<lparr>file_name = ''facade.png'', file_type = ''image/png'', file_size = 3145728\<rparr>"

definition firstRequestWaiting :: AppState where
  "firstRequestWaiting = maskProgress 0 (maskRequestStarted afterUpload)"

definition afterSecondUpload :: "UploadView \<times> AppState" where
  "afterSecondUpload =
     fst (handleFile (\<lambda>f url. handleImageUpload f url uploadOk) facade
            (Some ''data:image/png;base64,BBBB'')
            (\<lparr>preview = None, fileName = None\<rparr>, firstRequestWaiting))"

definition secondClick :: "AppState \<times> Effect list" where
  "secondClick = handleCanvasClick 10 20 1700000002000 maskFound (snd afterSecondUpload)"

definition firstClickAnswered :: "AppState \<times> Effect list" where
  "firstClickAnswered =
     maskRequestFrom 120 photo 100 150 1700000000000 maskFound (fst secondClick)"

section \<open>Properties of the handlers\<close>

declare uploadProgress.simps [simp del] maskProgress.simps [simp del] string_of_nat.simps [simp del]

lemmas state_updates =
  uploadStarted_def setProgress_def uploadSucceeded_def uploadFailed_def maskRequestStarted_def
  maskAppended_def maskRequestFailed_def colorsApplied_def

lemma uploadProgress_from_0: "uploadProgress 0 s = setProgress 100 s"
  by (simp add: uploadProgress.simps setProgress_def)

lemma maskProgress_from_0: "maskProgress 0 s = setProgress 100 s"
  by (simp add: maskProgress.simps setProgress_def)



lemma handleImageUpload_succeeded:
  "uploadAttempt r = Inr v \<Longrightarrow>
     handleImageUpload file url r s =
       (uploadSucceeded (setProgress 100 (uploadStarted file url s)),
        [UploadCall file,
         Toast ''Image uploaded successfully'' ''Your image is ready for processing.'' Default])"
  by (simp add: handleImageUpload_def uploadProgress_from_0)



lemma handleCanvasClick_succeeded:
  "uploadedImage s = Some file \<Longrightarrow> \<not> isProcessing s \<Longrightarrow> maskAttempt r = Inr v \<Longrightarrow>
     handleCanvasClick x y now r s =
       (maskAppended
          \<lparr>mask_id = now,
           coordinates = (case masks_gm v of [] \<Rightarrow> [] | m # ms \<Rightarrow> coordinates m),
           color = None\<rparr>
          (setProgress 100 (maskRequestStarted s)),
        [GenerateMasksCall file [[x, y]],
         Toast ''Mask generated successfully'' ''Click on the mask to apply colors.'' Default])"
  by (simp add: handleCanvasClick_def maskRequestFrom_def maskProgress_from_0)


lemma uploadAttempt_decoded:
  "ok status \<Longrightarrow>
     uploadAttempt (HttpResponse status (Decoded v)) =
       (if success_up v then Inr v else Inl (orElse (message_up v) ''Upload failed''))"
  by (simp add: uploadAttempt_def uploadImage_def readBody_def)


lemma maskAttempt_decoded:
  "ok status \<Longrightarrow>
     maskAttempt (HttpResponse status (Decoded v)) =
       (if success_gm v then Inr v else Inl (orElse (message_gm v) ''Mask generation failed''))"
  by (simp add: maskAttempt_def generateMasks_def readBody_def)

lemma afterUpload_eq:
  "afterUpload =
     \<lparr>uploadedImage = Some photo, imagePreview = Some ''data:image/jpeg;base64,AAAA'',
      masks = [], selectedMasks = [], appliedColors = [], isProcessing = False,
      progress = 100, error = None, currentStep = Select\<rparr>"
  by (simp add: afterUpload_def uploadOk_def uploadAttempt_decoded ok_def
      handleImageUpload_succeeded state_updates initialState_def)

lemma afterMask_eq:
  "afterMask =
     \<lparr>uploadedImage = Some photo, imagePreview = Some ''data:image/jpeg;base64,AAAA'',
      masks = [\<lparr>mask_id = 1700000000000, coordinates = [[90, 140], [130, 140], [130, 180]],
                color = None\<rparr>],
      selectedMasks = [], appliedColors = [], isProcessing = False,
      progress = 100, error = None, currentStep = Color\<rparr>"
  by (simp add: afterMask_def afterUpload_eq maskFound_def maskAttempt_decoded ok_def
      handleCanvasClick_succeeded state_updates)

lemma afterSelect_eq:
  "afterSelect =
     \<lparr>uploadedImage = Some photo, imagePreview = Some ''data:image/jpeg;base64,AAAA'',
      masks = [\<lparr>mask_id = 1700000000000, coordinates = [[90, 140], [130, 140], [130, 180]],
                color = None\<rparr>],
      selectedMasks = [1700000000000], appliedColors = [], isProcessing = False,
      progress = 100, error = None, currentStep = Color\<rparr>"
  by (simp add: afterSelect_def afterMask_eq handleMaskSelect_def)


lemma reachable_uploadProgress: "reachable s \<Longrightarrow> reachable (uploadProgress i s)"
proof (induction i s rule: uploadProgress.induct)
  case (1 i s)
  show ?case
  proof (cases "i \<le> 100")
    case True
    with "1.prems" have "reachable (setProgress i s)"
      by (simp add: reachable.progress_set)
    with True "1.IH" have "reachable (uploadProgress (i + 10) (setProgress i s))"
      by simp
    with True show ?thesis
      by (simp add: uploadProgress.simps [of i s])
  next
    case False
    with "1.prems" show ?thesis
      by (simp add: uploadProgress.simps [of i s])
  qed
qed

lemma reachable_maskProgress: "reachable s \<Longrightarrow> reachable (maskProgress i s)"
proof (induction i s rule: maskProgress.induct)
  case (1 i s)
  show ?case
  proof (cases "i \<le> 100")
    case True
    with "1.prems" have "reachable (setProgress i s)"
      by (simp add: reachable.progress_set)
    with True "1.IH" have "reachable (maskProgress (i + 20) (setProgress i s))"
      by simp
    with True show ?thesis
      by (simp add: maskProgress.simps [of i s])
  next
    case False
    with "1.prems" show ?thesis
      by (simp add: maskProgress.simps [of i s])
  qed
qed

lemma reachable_handleImageUpload:
  "reachable s \<Longrightarrow> reachable (fst (handleImageUpload file url r s))"
  by (auto simp: handleImageUpload_def Let_def split: sum.splits
      intro!: reachable.upload_succeeded reachable.upload_failed reachable_uploadProgress
        reachable.upload_started)

lemma reachable_handleCanvasClick:
  "reachable s \<Longrightarrow> reachable (fst (handleCanvasClick x y now r s))"
  by (auto simp: handleCanvasClick_def maskRequestFrom_def Let_def split: sum.splits option.splits
      intro!: reachable.mask_appended reachable.mask_request_failed reachable_maskProgress
        reachable.mask_request_started)

lemma reachable_handleColorSelect:
  "reachable s \<Longrightarrow> reachable (fst (handleColorSelect c s))"
  by (auto simp: handleColorSelect_def intro!: reachable.colors_applied)

lemma reachable_handleDownload:
  "reachable s \<Longrightarrow> reachable (fst (handleDownload s))"
  by (simp add: handleDownload_def)

lemma reachable_afterColor: "reachable afterColor"
proof -
  have "reachable afterUpload"
    unfolding afterUpload_def by (intro reachable_handleImageUpload reachable.initial)
  then have "reachable afterMask"
    unfolding afterMask_def by (intro reachable_handleCanvasClick)
  then have "reachable afterSelect"
    unfolding afterSelect_def
    using reachable.mask_toggled [of afterMask "hd (masks afterMask)"]
    by (simp add: afterMask_eq)
  then show ?thesis
    unfolding afterColor_def by (intro reachable_handleColorSelect)
qed

lemma reachable_selectionValid: "reachable s \<Longrightarrow> selectionValid s"
  by (induction rule: reachable.induct)
    (auto simp: selectionValid_def state_updates handleMaskSelect_def initialState_def)

section \<open>The workflow step\<close>




section \<open>Failures\<close>




section \<open>Serialized mask requests\<close>

text \<open>
  The handler of the latest render is the handler with the render made explicit, and
  the guard looks at the render only: a handler of a render that admits the request
  starts one whatever the current state is.
\<close>

lemma handleCanvasClickFrom_latest:
  "handleCanvasClickFrom s x y now r s = handleCanvasClick x y now r s"
  by (simp add: handleCanvasClickFrom_def handleCanvasClick_def)

lemma handleCanvasClickFrom_rejected:
  "uploadedImage state = None \<or> isProcessing state \<Longrightarrow>
     handleCanvasClickFrom state x y now r prev = (prev, [])"
  by (auto simp: handleCanvasClickFrom_def split: option.splits)

lemma handleCanvasClickFrom_admitted:
  "uploadedImage state = Some file \<Longrightarrow> \<not> isProcessing state \<Longrightarrow>
     handleCanvasClickFrom state x y now r prev =
       maskRequestFrom 0 file x y now r (maskRequestStarted prev)"
  by (simp add: handleCanvasClickFrom_def)

lemma maskRequestFrom_after_loop:
  "maskRequestFrom 0 file x y now r s = maskRequestFrom 120 file x y now r (maskProgress 0 s)"
  by (simp add: maskRequestFrom_def maskProgress.simps [of 120])

lemma firstRequestWaiting_eq:
  "firstRequestWaiting =
     \<lparr>uploadedImage = Some photo, imagePreview = Some ''data:image/jpeg;base64,AAAA'',
      masks = [], selectedMasks = [], appliedColors = [], isProcessing = True,
      progress = 100, error = None, currentStep = Select\<rparr>"
  by (simp add: firstRequestWaiting_def afterUpload_eq maskProgress_from_0 state_updates)

lemma afterSecondUpload_eq:
  "afterSecondUpload =
     (\<lparr>preview = Some ''data:image/png;base64,BBBB'', fileName = Some ''facade.png''\<rparr>,
      \<lparr>uploadedImage = Some facade, imagePreview = Some ''data:image/png;base64,BBBB'',
       masks = [], selectedMasks = [], appliedColors = [], isProcessing = False,
       progress = 100, error = None, currentStep = Select\<rparr>)"
  by (simp add: afterSecondUpload_def handleFile_def validateFile_def validTypes_def maxSize_def
      facade_def firstRequestWaiting_eq uploadOk_def uploadAttempt_decoded ok_def
      handleImageUpload_succeeded state_updates)

lemma reachable_firstRequestWaiting: "reachable firstRequestWaiting"
  unfolding firstRequestWaiting_def afterUpload_def
  by (intro reachable_maskProgress reachable.mask_request_started reachable_handleImageUpload
      reachable.initial)

lemma reachable_afterSecondUpload: "reachable (snd afterSecondUpload)"
proof -
  have "snd afterSecondUpload =
      fst (handleImageUpload facade ''data:image/png;base64,BBBB'' uploadOk firstRequestWaiting)"
    by (simp add: afterSecondUpload_def handleFile_def validateFile_def validTypes_def
        maxSize_def facade_def split: prod.splits)
  then show ?thesis
    by (simp add: reachable_handleImageUpload reachable_firstRequestWaiting)
qed

text \<open>
  Claim C3 fails on the code. The guard of \<^verbatim>\<open>requestMaskAtPoint\<close> does reject a
  call from a render with no image or with the processing flag set
  (\<open>handleCanvasClick_rejected\<close>), but the flag is not the first request's own: the end
  of an upload clears it. In the second session the first request is accepted and waits
  for the remote service with the flag set; the upload of the dropped file ends and
  clears the flag; the click at (10, 20) is then accepted and makes a second remote
  segmentation call while the first is outstanding; both answers append a mask.
\<close>

theorem second_mask_request_accepted:
  "uploadedImage afterUpload = Some photo \<and> \<not> isProcessing afterUpload \<and>
   handleCanvasClick 100 150 1700000000000 maskFound afterUpload =
     maskRequestFrom 120 photo 100 150 1700000000000 maskFound firstRequestWaiting \<and>
   isProcessing firstRequestWaiting \<and>
   reachable (snd afterSecondUpload) \<and>
   uploadedImage (snd afterSecondUpload) = Some facade \<and>
   isProcessing (snd afterSecondUpload) = False \<and>
   snd secondClick =
     [GenerateMasksCall facade [[10, 20]],
      Toast ''Mask generated successfully'' ''Click on the mask to apply colors.'' Default] \<and>
   filter isRemoteCall (snd secondClick @ snd firstClickAnswered) =
     [GenerateMasksCall facade [[10, 20]], GenerateMasksCall photo [[100, 150]]] \<and>
   map mask_id (masks (fst firstClickAnswered)) = [1700000002000, 1700000000000]"
proof -
  have first: "handleCanvasClick 100 150 1700000000000 maskFound afterUpload =
      maskRequestFrom 120 photo 100 150 1700000000000 maskFound firstRequestWaiting"
    by (simp add: handleCanvasClick_def afterUpload_eq firstRequestWaiting_def
        maskRequestFrom_after_loop [symmetric])
  have second: "secondClick =
      (\<lparr>uploadedImage = Some facade, imagePreview = Some ''data:image/png;base64,BBBB'',
        masks = [\<lparr>mask_id = 1700000002000,
                  coordinates = [[90, 140], [130, 140], [130, 180]], color = None\<rparr>],
        selectedMasks = [], appliedColors = [], isProcessing = False,
        progress = 100, error = None, currentStep = Color\<rparr>,
       [GenerateMasksCall facade [[10, 20]],
        Toast ''Mask generated successfully'' ''Click on the mask to apply colors.'' Default])"
    by (simp add: secondClick_def afterSecondUpload_eq maskFound_def maskAttempt_decoded ok_def
        handleCanvasClick_succeeded state_updates)
  have answered: "firstClickAnswered =
      (\<lparr>uploadedImage = Some facade, imagePreview = Some ''data:image/png;base64,BBBB'',
        masks = [\<lparr>mask_id = 1700000002000,
                  coordinates = [[90, 140], [130, 140], [130, 180]], color = None\<rparr>,
                 \<lparr>mask_id = 1700000000000,
                  coordinates = [[90, 140], [130, 140], [130, 180]], color = None\<rparr>],
        selectedMasks = [], appliedColors = [], isProcessing = False,
        progress = 100, error = None, currentStep = Color\<rparr>,
       [GenerateMasksCall photo [[100, 150]],
        Toast ''Mask generated successfully'' ''Click on the mask to apply colors.'' Default])"
    by (simp add: firstClickAnswered_def second maskRequestFrom_def maskProgress.simps [of 120]
        maskFound_def maskAttempt_decoded ok_def state_updates)
  show ?thesis
    using first reachable_afterSecondUpload
    by (simp add: second answered afterUpload_eq firstRequestWaiting_eq afterSecondUpload_eq)
qed

text \<open>
  The guard reads the render, not the current state: the handler of the render before
  the first click, called again after the first click's update, starts a second request
  as well.
\<close>

lemma stale_render_admits_second_request:
  "isProcessing firstRequestWaiting \<and>
   snd (handleCanvasClickFrom afterUpload 10 20 1700000000100 maskFound firstRequestWaiting) =
     [GenerateMasksCall photo [[10, 20]],
      Toast ''Mask generated successfully'' ''Click on the mask to apply colors.'' Default]"
  by (simp add: handleCanvasClickFrom_def afterUpload_eq firstRequestWaiting_eq
      maskRequestFrom_def maskFound_def maskAttempt_decoded ok_def)

section \<open>Colour assignment\<close>

lemma map_of_set_all:
  "map_of (foldl (\<lambda>m k. AList.update k c m) al ks) =
     (\<lambda>i. if i \<in> set ks then Some c else map_of al i)"
proof (induction ks arbitrary: al)
  case Nil
  show ?case by simp
next
  case (Cons k ks)
  show ?case
    by (auto simp: Cons.IH update_conv')
qed

text \<open>
  Claim C4. With an empty selection \<^verbatim>\<open>assignColor\<close> returns the state unchanged and
  raises an error notice. Otherwise every selected identifier is mapped to the colour,
  every other entry of the colour map is as before, the step is \<open>download\<close> and no
  other field changes; with the selection 1, 2 and an empty map the result maps 1 and 2 to
  the colour.
\<close>

theorem assignColor_sets_selected:
  "(selectedMasks s = [] \<longrightarrow>
      fst (handleColorSelect c s) = s \<and> list_ex isErrorNotice (snd (handleColorSelect c s))) \<and>
   (selectedMasks s \<noteq> [] \<longrightarrow>
      (\<forall>i \<in> set (selectedMasks s). map_of (appliedColors (fst (handleColorSelect c s))) i = Some c) \<and>
      (\<forall>i. i \<notin> set (selectedMasks s) \<longrightarrow>
         map_of (appliedColors (fst (handleColorSelect c s))) i = map_of (appliedColors s) i) \<and>
      currentStep (fst (handleColorSelect c s)) = Download \<and>
      fst (handleColorSelect c s) =
        s\<lparr>appliedColors := appliedColors (fst (handleColorSelect c s)), currentStep := Download\<rparr>) \<and>
   (selectedMasks s = [1, 2] \<and> appliedColors s = [] \<longrightarrow>
      appliedColors (fst (handleColorSelect c s)) = [(1, c), (2, c)])"
  by (simp add: handleColorSelect_def colorsApplied_def map_of_set_all)

text \<open>The theorem before and after the mask of the session is selected.\<close>

theorem assignColor_sets_selected_witness:
  "fst (handleColorSelect ''#FF6B6B'' afterMask) = afterMask \<and>
   list_ex isErrorNotice (snd (handleColorSelect ''#FF6B6B'' afterMask)) \<and>
   map_of (appliedColors (fst (handleColorSelect ''#FF6B6B'' afterSelect))) 1700000000000 =
     Some ''#FF6B6B'' \<and>
   map_of (appliedColors (fst (handleColorSelect ''#FF6B6B'' afterSelect))) 5 = None \<and>
   currentStep (fst (handleColorSelect ''#FF6B6B'' afterSelect)) = Download \<and>
   appliedColors (fst (handleColorSelect ''#FF6B6B'' (afterMask\<lparr>selectedMasks := [1, 2]\<rparr>))) =
     [(1, ''#FF6B6B''), (2, ''#FF6B6B'')]"
proof -
  have a: "selectedMasks afterMask = []" "selectedMasks afterSelect \<noteq> []"
    "set (selectedMasks afterSelect) = {1700000000000}" "appliedColors afterSelect = []"
    "selectedMasks (afterMask\<lparr>selectedMasks := [1, 2]\<rparr>) = [1, 2] \<and>
      appliedColors (afterMask\<lparr>selectedMasks := [1, 2]\<rparr>) = []"
    by (simp_all add: afterMask_eq afterSelect_eq)
  show ?thesis
    using assignColor_sets_selected [of afterMask "''#FF6B6B''"]
      assignColor_sets_selected [of afterSelect "''#FF6B6B''"]
      assignColor_sets_selected [of "afterMask\<lparr>selectedMasks := [1, 2]\<rparr>" "''#FF6B6B''"] a
    by simp
qed

section \<open>Validation of the uploaded file\<close>

text \<open>
  Claim C5. For a file whose type is not in the allow-list or whose size is above
  10 MB, \<^verbatim>\<open>handleFile\<close> leaves the state of the component and of the controller
  unchanged, whatever the callback is (it is not called), raises exactly the one error
  notice of \<^verbatim>\<open>validateFile\<close>, and issues no remote call.
\<close>

theorem invalid_file_rejected:
  "file_type file \<notin> set validTypes \<or> maxSize < file_size file \<Longrightarrow>
     fst (handleFile onImageUpload file result (view, app)) = (view, app) \<and>
     snd (handleFile onImageUpload file result (view, app)) = snd (validateFile file) \<and>
     length (snd (validateFile file)) = 1 \<and>
     list_all isErrorNotice (snd (validateFile file)) \<and>
     \<not> list_ex isRemoteCall (snd (handleFile onImageUpload file result (view, app)))"
  by (auto simp: handleFile_def validateFile_def)

text \<open>A PNG of 15 MB.\<close>

theorem invalid_file_rejected_witness:
  "handleFile (\<lambda>f url. handleImageUpload f url uploadOk)
     \<lparr>file_name = ''facade.png'', file_type = ''image/png'', file_size = 15728640\<rparr>
     (Some ''data:image/png;base64,AAAA'')
     (\<lparr>preview = None, fileName = None\<rparr>, initialState) =
   ((\<lparr>preview = None, fileName = None\<rparr>, initialState),
    [Toast ''File too large'' ''Please upload an image smaller than 10MB.'' Destructive])"
proof -
  have a: "file_type \<lparr>file_name = ''facade.png'', file_type = ''image/png'', file_size = 15728640\<rparr>
        \<notin> set validTypes \<or>
      maxSize < file_size \<lparr>file_name = ''facade.png'', file_type = ''image/png'', file_size = 15728640\<rparr>"
    by (simp add: maxSize_def)
  have b: "snd (validateFile \<lparr>file_name = ''facade.png'', file_type = ''image/png'', file_size = 15728640\<rparr>) =
      [Toast ''File too large'' ''Please upload an image smaller than 10MB.'' Destructive]"
    by (simp add: validateFile_def validTypes_def maxSize_def)
  show ?thesis
    using invalid_file_rejected [OF a, of "\<lambda>f url. handleImageUpload f url uploadOk"
        "Some ''data:image/png;base64,AAAA''" "\<lparr>preview = None, fileName = None\<rparr>" initialState] b
    by (simp add: prod_eq_iff)
qed

section \<open>Errors of the API client\<close>

text \<open>
  Claim C6, as amended. Every operation of the API client throws on a transport
  failure: the error of a rejected \<^verbatim>\<open>fetch\<close>, or an error naming the status when the
  status is not 2xx. A 2xx response is returned to the caller as decoded, whatever its
  \<^verbatim>\<open>success\<close> flag: the client does not read the flag. The workflow controller
  does, for \<^verbatim>\<open>uploadImage\<close> and \<^verbatim>\<open>generateMasks\<close>, and turns a false flag
  into an error there.
\<close>

theorem api_client_errors:
  "uploadImage (NetworkError m) = Inl m \<and>
   generateMasks (NetworkError m) = Inl m \<and>
   applyColor (NetworkError m) = Inl m \<and>
   downloadResult (NetworkError m) = Inl m \<and>
   (\<not> ok status \<longrightarrow>
      uploadImage (HttpResponse status ub) = Inl (''Upload failed: '' @ string_of_nat status) \<and>
      generateMasks (HttpResponse status gb) =
        Inl (''Mask generation failed: '' @ string_of_nat status) \<and>
      applyColor (HttpResponse status ab) = Inl (''HTTP error! status: '' @ string_of_nat status) \<and>
      downloadResult (HttpResponse status db) =
        Inl (''Download failed: '' @ string_of_nat status)) \<and>
   (ok status \<longrightarrow>
      uploadImage (HttpResponse status (Decoded u)) = Inr u \<and>
      generateMasks (HttpResponse status (Decoded g)) = Inr g \<and>
      applyColor (HttpResponse status (Decoded a)) = Inr a \<and>
      downloadResult (HttpResponse status (Decoded d)) = Inr d \<and>
      (\<not> success_up u \<longrightarrow>
         uploadAttempt (HttpResponse status (Decoded u)) =
           Inl (orElse (message_up u) ''Upload failed'')) \<and>
      (\<not> success_gm g \<longrightarrow>
         maskAttempt (HttpResponse status (Decoded g)) =
           Inl (orElse (message_gm g) ''Mask generation failed'')))"
  by (simp add: uploadImage_def generateMasks_def applyColor_def makeRequest_def
      downloadResult_def readBody_def uploadAttempt_def maskAttempt_def)

text \<open>The statuses 500 and 200, the latter with a false flag.\<close>

theorem api_client_errors_witness:
  "uploadImage (HttpResponse 500 (BodyError ''Unexpected token'')) = Inl ''Upload failed: 500'' \<and>
   applyColor (HttpResponse 500 (BodyError ''Unexpected token'')) = Inl ''HTTP error! status: 500'' \<and>
   uploadImage (HttpResponse 200
      (Decoded \<lparr>success_up = False, filename = None, message_up = Some ''disk full''\<rparr>)) =
     Inr \<lparr>success_up = False, filename = None, message_up = Some ''disk full''\<rparr> \<and>
   uploadAttempt (HttpResponse 200
      (Decoded \<lparr>success_up = False, filename = None, message_up = Some ''disk full''\<rparr>)) =
     Inl ''disk full''"
proof -
  have a: "\<not> ok 500" "ok 200"
    by (simp_all add: ok_def)
  have b: "string_of_nat 500 = ''500''"
    by code_simp
  have c: "orElse (Some ''disk full'') ''Upload failed'' = ''disk full''"
    by (simp add: orElse_def)
  show ?thesis
    using api_client_errors [of "''Failed to fetch''" 500 "BodyError ''Unexpected token''"
      "BodyError ''Unexpected token''" "BodyError ''Unexpected token''"
      "BodyError ''Unexpected token'' :: string Body"
      "\<lparr>success_up = False, filename = None, message_up = Some ''disk full''\<rparr>"
      "\<lparr>masks_gm = [], success_gm = True, message_gm = None\<rparr>"
      "\<lparr>success_ac = True, colored_image_url = None, message_ac = None\<rparr>" "''PNG''"]
    api_client_errors [of "''Failed to fetch''" 200 "BodyError ''Unexpected token''"
      "BodyError ''Unexpected token''" "BodyError ''Unexpected token''"
      "BodyError ''Unexpected token'' :: string Body"
      "\<lparr>success_up = False, filename = None, message_up = Some ''disk full''\<rparr>"
      "\<lparr>masks_gm = [], success_gm = True, message_gm = None\<rparr>"
      "\<lparr>success_ac = True, colored_image_url = None, message_ac = None\<rparr>" "''PNG''"]
      a b c
    by auto
qed

text \<open>
  Claim C6 as stated fails: \<^verbatim>\<open>uploadImage\<close> returns a response with
  \<^verbatim>\<open>success: false\<close> as its result.
\<close>

theorem success_false_returned_counterexample:
  "uploadImage (HttpResponse 200
      (Decoded \<lparr>success_up = False, filename = None, message_up = Some ''disk full''\<rparr>)) =
     Inr \<lparr>success_up = False, filename = None, message_up = Some ''disk full''\<rparr> \<and>
   \<not> success_up \<lparr>success_up = False, filename = None, message_up = Some ''disk full''\<rparr>"
  by (simp add: uploadImage_def ok_def readBody_def)

section \<open>The selection\<close>

text \<open>
  Claim C7, as amended. In every reachable state, where a mask is toggled only through
  the overlay of a mask of the list, every selected identifier is the identifier of a
  mask. \<^verbatim>\<open>toggleMaskSelection\<close> keeps this for the identifier of a mask of the list,
  and for an identifier that is selected; for an identifier of no mask that is not
  selected it adds the identifier to the selection, which then names a mask that does not
  exist.
\<close>

theorem selection_within_masks:
  "(reachable s \<longrightarrow> selectionValid s) \<and>
   (selectionValid s \<and> (maskId \<in> set (map mask_id (masks s)) \<or> maskId \<in> set (selectedMasks s)) \<longrightarrow>
      selectionValid (handleMaskSelect maskId s)) \<and>
   (maskId \<notin> set (map mask_id (masks s)) \<and> maskId \<notin> set (selectedMasks s) \<longrightarrow>
      \<not> selectionValid (handleMaskSelect maskId s))"
proof (intro conjI impI)
  assume "reachable s"
  then show "selectionValid s"
    by (rule reachable_selectionValid)
next
  assume "selectionValid s \<and>
    (maskId \<in> set (map mask_id (masks s)) \<or> maskId \<in> set (selectedMasks s))"
  then show "selectionValid (handleMaskSelect maskId s)"
    by (auto simp: selectionValid_def handleMaskSelect_def)
next
  assume "maskId \<notin> set (map mask_id (masks s)) \<and> maskId \<notin> set (selectedMasks s)"
  then show "\<not> selectionValid (handleMaskSelect maskId s)"
    by (auto simp: selectionValid_def handleMaskSelect_def)
qed

text \<open>The states of the session, the mask of the session and the identifier 7 of no mask.\<close>

theorem selection_within_masks_witness:
  "selectionValid afterColor \<and>
   selectionValid (handleMaskSelect 1700000000000 afterMask) \<and>
   \<not> selectionValid (handleMaskSelect 7 afterMask)"
proof -
  have a: "selectionValid afterMask \<and>
      (1700000000000 \<in> set (map mask_id (masks afterMask)) \<or>
       1700000000000 \<in> set (selectedMasks afterMask))"
    by (simp add: selectionValid_def afterMask_eq)
  have b: "7 \<notin> set (map mask_id (masks afterMask)) \<and> 7 \<notin> set (selectedMasks afterMask)"
    by (simp add: afterMask_eq)
  show ?thesis
    using selection_within_masks [of afterColor 7] selection_within_masks [of afterMask 1700000000000]
      selection_within_masks [of afterMask 7] reachable_afterColor a b
    by blast
qed

text \<open>
  Claim C7 as stated fails: toggling the identifier 7 in the initial state, which has no
  mask, selects it.
\<close>

theorem toggle_unknown_mask_counterexample:
  "reachable initialState \<and> selectionValid initialState \<and>
   masks (handleMaskSelect 7 initialState) = [] \<and>
   selectedMasks (handleMaskSelect 7 initialState) = [7] \<and>
   \<not> selectionValid (handleMaskSelect 7 initialState)"
  using reachable.initial
  by (simp add: selectionValid_def handleMaskSelect_def initialState_def)

text \<open>
  Claim C8. Toggling the same identifier twice gives back the set of selected
  identifiers. (The list may come back in another order: an identifier that was
  selected is removed and then appended at the end.)
\<close>

theorem toggle_twice:
  "set (selectedMasks (handleMaskSelect maskId (handleMaskSelect maskId s))) =
     set (selectedMasks s)"
  by (auto simp: handleMaskSelect_def)

section \<open>Recent colours\<close>







section \<open>A successful response without masks\<close>

text \<open>
  Claim C10. When the state admits a mask request and the remote call answers with a
  2xx status, \<^verbatim>\<open>success: true\<close> and an empty list of masks, the handler appends one
  mask with the identifier of the clock and no coordinates, clears the processing flag,
  sets the progress to 100 and the step to \<open>color\<close>, leaves the error empty and raises
  the notice of success.
\<close>

theorem empty_masks_still_appends:
  "uploadedImage s = Some file \<and> \<not> isProcessing s \<and> ok status \<Longrightarrow>
     handleCanvasClick x y now
       (HttpResponse status (Decoded \<lparr>masks_gm = [], success_gm = True, message_gm = msg\<rparr>)) s =
       (s\<lparr>masks := masks s @ [\<lparr>mask_id = now, coordinates = [], color = None\<rparr>],
          isProcessing := False, progress := 100, error := None, currentStep := Color\<rparr>,
        [GenerateMasksCall file [[x, y]],
         Toast ''Mask generated successfully'' ''Click on the mask to apply colors.'' Default])"
  by (simp add: handleCanvasClick_succeeded maskAttempt_decoded state_updates)

text \<open>The click of the session, answered without masks.\<close>

theorem empty_masks_still_appends_witness:
  "handleCanvasClick 100 150 1700000000000 noMaskFound afterUpload =
     (afterUpload\<lparr>masks := [\<lparr>mask_id = 1700000000000, coordinates = [], color = None\<rparr>],
        isProcessing := False, progress := 100, error := None, currentStep := Color\<rparr>,
      [GenerateMasksCall photo [[100, 150]],
       Toast ''Mask generated successfully'' ''Click on the mask to apply colors.'' Default])"
proof -
  have a: "uploadedImage afterUpload = Some photo \<and> \<not> isProcessing afterUpload \<and> ok 200"
    by (simp add: afterUpload_eq ok_def)
  show ?thesis
    using empty_masks_still_appends [OF a, of 100 150 1700000000000 None]
    by (simp add: noMaskFound_def afterUpload_eq)
qed

end
